theory Spec2Isabelle
  imports Complex_Main "HOL-Library.Multiset"
begin

section \<open>Data model (backend/models/Post.js)\<close>

text \<open>
  Object ids of users and posts are compared by value everywhere in the routes
  (\<^verbatim>\<open>toString()\<close> on both sides, or Mongoose's \<^verbatim>\<open>includes\<close>), so they are
  natural numbers here; \<open>pid\<close> is the \<^verbatim>\<open>_id\<close> of a post. Dates are milliseconds, also
  natural numbers. The \<^verbatim>\<open>updatedAt\<close> stamp that Mongoose maintains by itself is not
  part of the model.

  Each route is modelled by the body of its handler: the actor is the user that the
  authentication middleware has resolved, the id in the path is an object id, and a field
  of the request body is a string or absent (\<open>None\<close>). A handler returns its answer
  together with the collection as it leaves it. \<^verbatim>\<open>populate\<close>, which only replaces author
  ids by user documents in the answer, is left out. Failures of the database itself, and
  a path parameter that is no object id, are outside the model.
\<close>

type_synonym user_id = nat
type_synonym post_id = nat
type_synonym date = nat

record reply =
  r_author :: user_id
  r_content :: string
  r_createdAt :: date

record post =
  pid :: post_id
  author :: user_id
  content :: string
  postType :: string
  location :: string
  imageUrl :: "string option"
  likes :: "user_id list"
  dislikes :: "user_id list"
  replies :: "reply list"
  createdAt :: date

text \<open>The posts collection, in storage order.\<close>

type_synonym store = "post list"

text \<open>
  The failures of the routes: 400 with a validation message, 400 with
  \<^verbatim>\<open>Invalid reaction type\<close>, 404, 403, 500 after a failed image upload, and 500 from
  the \<^verbatim>\<open>catch\<close> block of a route.
\<close>

datatype error =
    ValidationError
  | InvalidReactionKind
  | NotFound
  | NotAuthorized
  | UploadError
  | ServerError

fun status :: "error \<Rightarrow> nat" where
  "status ValidationError = 400"
| "status InvalidReactionKind = 400"
| "status NotFound = 404"
| "status NotAuthorized = 403"
| "status UploadError = 500"
| "status ServerError = 500"

section \<open>The collection primitives used by the routes\<close>

definition findById :: "store \<Rightarrow> post_id \<Rightarrow> post option" where
  "findById st i = find (\<lambda>p. pid p = i) st"

text \<open>\<^verbatim>\<open>save()\<close> of a loaded document writes it back under its id.\<close>

fun updateOne :: "post \<Rightarrow> store \<Rightarrow> store" where
  "updateOne p [] = []"
| "updateOne p (q # qs) = (if pid q = pid p then p # qs else q # updateOne p qs)"

fun findByIdAndDelete :: "post_id \<Rightarrow> store \<Rightarrow> store" where
  "findByIdAndDelete i [] = []"
| "findByIdAndDelete i (q # qs) = (if pid q = i then qs else q # findByIdAndDelete i qs)"

section \<open>Reactions (routes/posts.js, POST and DELETE /:id/reactions)\<close>

text \<open>\<^verbatim>\<open>xs.filter(id => id.toString() !== userId.toString())\<close>\<close>

definition without :: "user_id \<Rightarrow> user_id list \<Rightarrow> user_id list" where
  "without userId xs = filter (\<lambda>i. i \<noteq> userId) xs"

text \<open>The body of the route between loading the post and saving it, for a valid type.\<close>

definition react :: "user_id \<Rightarrow> string \<Rightarrow> post \<Rightarrow> post" where
  "react userId type p =
     (let hasLiked = (userId \<in> set (likes p));
          hasDisliked = (userId \<in> set (dislikes p))
      in if type = ''like'' then
           (if hasLiked then p\<lparr>likes := without userId (likes p)\<rparr>
            else (let p1 = p\<lparr>likes := likes p @ [userId]\<rparr>
                  in if hasDisliked then p1\<lparr>dislikes := without userId (dislikes p1)\<rparr>
                     else p1))
         else
           (if hasDisliked then p\<lparr>dislikes := without userId (dislikes p)\<rparr>
            else (let p1 = p\<lparr>dislikes := dislikes p @ [userId]\<rparr>
                  in if hasLiked then p1\<lparr>likes := without userId (likes p1)\<rparr>
                     else p1)))"

definition userReaction :: "user_id \<Rightarrow> post \<Rightarrow> string option" where
  "userReaction userId p =
     (if userId \<in> set (likes p) then Some ''like''
      else if userId \<in> set (dislikes p) then Some ''dislike''
      else None)"

record reaction_response =
  likes_count :: nat
  dislikes_count :: nat
  user_reaction :: "string option"

definition setReaction ::
    "store \<Rightarrow> post_id \<Rightarrow> user_id \<Rightarrow> string option \<Rightarrow> (error + reaction_response) \<times> store" where
  "setReaction st i userId type =
     (case type of
        None \<Rightarrow> (Inl InvalidReactionKind, st)
      | Some t \<Rightarrow>
          if \<not> (t = ''like'' \<or> t = ''dislike'') then (Inl InvalidReactionKind, st)
          else (case findById st i of
                  None \<Rightarrow> (Inl NotFound, st)
                | Some p \<Rightarrow>
                    (let p' = react userId t p
                     in (Inr \<lparr>likes_count = length (likes p'),
                              dislikes_count = length (dislikes p'),
                              user_reaction = userReaction userId p'\<rparr>,
                         updateOne p' st))))"

definition clearReaction ::
    "store \<Rightarrow> post_id \<Rightarrow> user_id \<Rightarrow> (error + reaction_response) \<times> store" where
  "clearReaction st i userId =
     (case findById st i of
        None \<Rightarrow> (Inl NotFound, st)
      | Some p \<Rightarrow>
          (let p' = p\<lparr>likes := without userId (likes p),
                      dislikes := without userId (dislikes p)\<rparr>
           in (Inr \<lparr>likes_count = length (likes p'),
                    dislikes_count = length (dislikes p'),
                    user_reaction = None\<rparr>,
               updateOne p' st)))"

text \<open>Sequences of reaction requests, each run on the store the previous one left.\<close>

datatype reaction_req =
    SetReaction post_id user_id "string option"
  | ClearReaction post_id user_id

fun reaction_step :: "store \<Rightarrow> reaction_req \<Rightarrow> store" where
  "reaction_step st (SetReaction i u t) = snd (setReaction st i u t)"
| "reaction_step st (ClearReaction i u) = snd (clearReaction st i u)"

definition disjoint_reactions :: "post \<Rightarrow> bool" where
  "disjoint_reactions p \<longleftrightarrow> set (likes p) \<inter> set (dislikes p) = {}"

section \<open>Request bodies and schema setters\<close>

text \<open>
  A character stands for one code unit (below 256) of a JavaScript string, so \<open>length\<close>
  is \<^verbatim>\<open>.length\<close>. \<^verbatim>\<open>!v\<close> holds of an absent field and of the empty string; \<open>str\<close>
  reads a field that is known to be present.
\<close>

definition falsy :: "string option \<Rightarrow> bool" where
  "falsy v \<longleftrightarrow> (case v of None \<Rightarrow> True | Some s \<Rightarrow> s = [])"

definition str :: "string option \<Rightarrow> string" where
  "str v = (case v of None \<Rightarrow> [] | Some s \<Rightarrow> s)"

text \<open>
  The schema declares \<^verbatim>\<open>location\<close> with \<^verbatim>\<open>trim: true\<close>: the setter applies
  \<^verbatim>\<open>String.prototype.trim\<close>, which strips white space (tab, line feed, vertical tab,
  form feed, carriage return, space, no-break space) from both ends.
\<close>

definition is_space :: "char \<Rightarrow> bool" where
  "is_space c \<longleftrightarrow>
     c = CHR 0x09 \<or> c = CHR 0x0A \<or> c = CHR 0x0B \<or> c = CHR 0x0C \<or> c = CHR 0x0D \<or>
     c = CHR 0x20 \<or> c = CHR 0xA0"

definition trim :: "string \<Rightarrow> string" where
  "trim s = rev (dropWhile is_space (rev (dropWhile is_space s)))"

definition validPostTypes :: "string list" where
  "validPostTypes = [''recommendation'', ''help'', ''update'', ''event'']"

section \<open>Creating and reading posts (POST /, GET /:id)\<close>

text \<open>
  The outcome of the optional image upload inside the handler, whose service is outside
  the repository: no file attached (\<^verbatim>\<open>req.file\<close> unset), the upload failing, or the
  URL it returned.
\<close>

datatype upload = NoFile | UploadFails | Uploaded string

fun image_of :: "upload \<Rightarrow> string option" where
  "image_of (Uploaded url) = Some url"
| "image_of _ = None"

text \<open>
  \<^verbatim>\<open>new Post({...})\<close>: the object id and the creation date come from the driver and the
  clock; the setters run, the arrays start empty.
\<close>

definition new_Post ::
    "post_id \<Rightarrow> date \<Rightarrow> user_id \<Rightarrow> string \<Rightarrow> string \<Rightarrow> string \<Rightarrow> string option \<Rightarrow> post" where
  "new_Post oid now a c t l img =
     \<lparr>pid = oid, author = a, content = c, postType = t, location = trim l, imageUrl = img,
      likes = [], dislikes = [], replies = [], createdAt = now\<rparr>"

text \<open>The validators of the schema that \<^verbatim>\<open>save()\<close> runs on a new document.\<close>

definition validate :: "post \<Rightarrow> bool" where
  "validate p \<longleftrightarrow>
     content p \<noteq> [] \<and> length (content p) \<le> 280 \<and>
     postType p \<in> set validPostTypes \<and>
     location p \<noteq> []"

text \<open>
  A validation error raised by \<^verbatim>\<open>save()\<close> and a duplicate key both land in the
  \<^verbatim>\<open>catch\<close> block of the route.
\<close>

definition createPost ::
    "store \<Rightarrow> post_id \<Rightarrow> date \<Rightarrow> user_id \<Rightarrow> string option \<Rightarrow> string option \<Rightarrow> string option \<Rightarrow>
     upload \<Rightarrow> (error + post) \<times> store" where
  "createPost st oid now actor b_content b_postType b_location file =
     (if falsy b_content \<or> falsy b_postType \<or> falsy b_location then (Inl ValidationError, st)
      else if length (str b_content) > 280 then (Inl ValidationError, st)
      else if str b_postType \<notin> set validPostTypes then (Inl ValidationError, st)
      else if file = UploadFails then (Inl UploadError, st)
      else (let p = new_Post oid now actor (str b_content) (str b_postType) (str b_location)
                      (image_of file)
            in if \<not> validate p then (Inl ServerError, st)
               else if oid \<in> pid ` set st then (Inl ServerError, st)
               else (Inr p, st @ [p])))"

definition getPost :: "store \<Rightarrow> post_id \<Rightarrow> error + post" where
  "getPost st i = (case findById st i of None \<Rightarrow> Inl NotFound | Some p \<Rightarrow> Inr p)"

section \<open>Updating and deleting posts (PUT /:id, DELETE /:id)\<close>

definition updatePost ::
    "store \<Rightarrow> post_id \<Rightarrow> user_id \<Rightarrow> string option \<Rightarrow> (error + post) \<times> store" where
  "updatePost st i actor b_content =
     (if falsy b_content then (Inl ValidationError, st)
      else if length (str b_content) > 280 then (Inl ValidationError, st)
      else (case findById st i of
              None \<Rightarrow> (Inl NotFound, st)
            | Some p \<Rightarrow>
                if author p \<noteq> actor then (Inl NotAuthorized, st)
                else (let p' = p\<lparr>content := str b_content\<rparr>
                      in (Inr p', updateOne p' st))))"

definition deletePost :: "store \<Rightarrow> post_id \<Rightarrow> user_id \<Rightarrow> (error + unit) \<times> store" where
  "deletePost st i actor =
     (case findById st i of
        None \<Rightarrow> (Inl NotFound, st)
      | Some p \<Rightarrow>
          if author p \<noteq> actor then (Inl NotAuthorized, st)
          else (Inr (), findByIdAndDelete i st))"

section \<open>Replies (POST and GET /:id/replies)\<close>

definition addReply ::
    "store \<Rightarrow> post_id \<Rightarrow> date \<Rightarrow> user_id \<Rightarrow> string option \<Rightarrow> (error + reply) \<times> store" where
  "addReply st i now actor b_content =
     (if falsy b_content then (Inl ValidationError, st)
      else if length (str b_content) > 280 then (Inl ValidationError, st)
      else (case findById st i of
              None \<Rightarrow> (Inl NotFound, st)
            | Some p \<Rightarrow>
                (let r = \<lparr>r_author = actor, r_content = str b_content, r_createdAt = now\<rparr>;
                     p' = p\<lparr>replies := replies p @ [r]\<rparr>
                 in (Inr (last (replies p')), updateOne p' st))))"

definition listReplies :: "store \<Rightarrow> post_id \<Rightarrow> error + reply list" where
  "listReplies st i = (case findById st i of None \<Rightarrow> Inl NotFound | Some p \<Rightarrow> Inr (replies p))"

section \<open>Listing (GET /)\<close>

text \<open>
  The query parameters after \<^verbatim>\<open>if (location)\<close> and \<^verbatim>\<open>if (postType)\<close>.
  \<^verbatim>\<open>new RegExp(location, 'i')\<close> is the regular-expression engine's; it is the
  parameter \<open>rx\<close>, which gives for a pattern the test of the compiled expression
  against a string, or \<open>None\<close> when the pattern is no regular expression and the
  constructor throws.
\<close>

record query =
  q_location :: "string option"
  q_postType :: "string option"

definition compiles :: "(string \<Rightarrow> (string \<Rightarrow> bool) option) \<Rightarrow> query \<Rightarrow> bool" where
  "compiles rx q \<longleftrightarrow> falsy (q_location q) \<or> rx (str (q_location q)) \<noteq> None"

text \<open>
  The filter handed to \<^verbatim>\<open>find\<close> and \<^verbatim>\<open>countDocuments\<close>. It is only built when the
  pattern has compiled.
\<close>

definition matches ::
    "(string \<Rightarrow> (string \<Rightarrow> bool) option) \<Rightarrow> query \<Rightarrow> post \<Rightarrow> bool" where
  "matches rx q p \<longleftrightarrow>
     (falsy (q_location q) \<or>
      (case rx (str (q_location q)) of None \<Rightarrow> False | Some test \<Rightarrow> test (location p))) \<and>
     (falsy (q_postType q) \<or> postType p = str (q_postType q))"

text \<open>
  \<^verbatim>\<open>find(filter).sort({ createdAt: -1 })\<close> names \<^verbatim>\<open>createdAt\<close> as its only sort key:
  what the database hands back is the matching documents in some order that is
  descending in \<^verbatim>\<open>createdAt\<close>.
\<close>

definition sorted_desc :: "post list \<Rightarrow> bool" where
  "sorted_desc ys \<longleftrightarrow> sorted_wrt (\<lambda>a b. createdAt b \<le> createdAt a) ys"

definition find_sort :: "(post \<Rightarrow> bool) \<Rightarrow> store \<Rightarrow> post list \<Rightarrow> bool" where
  "find_sort f st ys \<longleftrightarrow> mset ys = mset (filter f st) \<and> sorted_desc ys"

text \<open>
  \<^verbatim>\<open>.limit(n)\<close>: zero means no limit, a negative number counts as its absolute value.
\<close>

definition limit_docs :: "int \<Rightarrow> post list \<Rightarrow> post list" where
  "limit_docs n ys = (if n = 0 then ys else take (nat \<bar>n\<bar>) ys)"

text \<open>\<^verbatim>\<open>Math.ceil(total / limit)\<close>; not a finite number when the limit is zero.\<close>

definition total_pages :: "nat \<Rightarrow> int \<Rightarrow> int option" where
  "total_pages n k = (if k = 0 then None else Some \<lceil>real n / real_of_int k\<rceil>)"

record list_response =
  posts :: "post list"
  totalPages :: "int option"
  currentPage :: int
  total :: nat

text \<open>
  \<open>page\<close> and \<open>limit\<close> are the query parameters as numbers (defaults 1 and 20),
  and \<open>ys\<close> is the sequence of documents that the database's find-and-sort produces for
  the filter, of which \<open>find_sort\<close> is all that the query guarantees; skip and limit
  cut the page out of it. The exception of the \<^verbatim>\<open>RegExp\<close> constructor is caught by
  the route, which answers 500, as it does when the database rejects a negative
  \<^verbatim>\<open>skip\<close>.
\<close>

definition listPosts ::
    "(string \<Rightarrow> (string \<Rightarrow> bool) option) \<Rightarrow> store \<Rightarrow> query \<Rightarrow> int \<Rightarrow> int \<Rightarrow> post list \<Rightarrow>
     error + list_response" where
  "listPosts rx st q page limit ys =
     (if \<not> compiles rx q then Inl ServerError
      else if (page - 1) * limit < 0 then Inl ServerError
      else Inr \<lparr>posts = limit_docs limit (drop (nat ((page - 1) * limit)) ys),
                totalPages = total_pages (length (filter (matches rx q) st)) limit,
                currentPage = page,
                total = length (filter (matches rx q) st)\<rparr>)"

section \<open>Sample data\<close>

definition sample_post :: post where
  "sample_post =
     \<lparr>pid = 1, author = 5, content = ''hello'', postType = ''help'', location = ''Paris'',
      imageUrl = None, likes = [], dislikes = [], replies = [], createdAt = 1000\<rparr>"

definition sample_store :: store where
  "sample_store = [sample_post]"

definition liked_post :: post where
  "liked_post = sample_post\<lparr>likes := [7]\<rparr>"

definition disliked_post :: post where
  "disliked_post = sample_post\<lparr>dislikes := [7]\<rparr>"

definition reacted_post :: post where
  "reacted_post = sample_post\<lparr>likes := [8, 7, 9], dislikes := [6, 7]\<rparr>"

definition cleared_post :: post where
  "cleared_post = sample_post\<lparr>likes := [8, 9], dislikes := [6]\<rparr>"

definition other_post :: post where
  "other_post = sample_post\<lparr>pid := 2, likes := [7], dislikes := [8]\<rparr>"

definition reaction_store :: store where
  "reaction_store = [other_post, reacted_post]"

text \<open>An engine for which every pattern compiles to a test that every string passes.\<close>

definition any_rx :: "string \<Rightarrow> (string \<Rightarrow> bool) option" where
  "any_rx pat = Some (\<lambda>s. True)"






definition no_filter :: query where
  "no_filter = \<lparr>q_location = None, q_postType = None\<rparr>"



definition tie_a :: post where
  "tie_a = sample_post\<lparr>pid := 1\<rparr>"

definition tie_b :: post where
  "tie_b = sample_post\<lparr>pid := 2\<rparr>"

definition tie_store :: store where
  "tie_store = [tie_a, tie_b]"

definition newer_post :: post where
  "newer_post = sample_post\<lparr>pid := 2, createdAt := 2000\<rparr>"

definition dated_store :: store where
  "dated_store = [sample_post, newer_post]"



section \<open>Facts about the collection primitives\<close>

lemma findById_pid: "findById st i = Some p \<Longrightarrow> pid p = i"
  unfolding findById_def by (induction st) (auto split: if_splits)

lemma findById_updateOne_same:
  "findById st i = Some p \<Longrightarrow> pid p' = i \<Longrightarrow> findById (updateOne p' st) i = Some p'"
  unfolding findById_def by (induction st) (auto split: if_splits)

lemma findById_updateOne_other:
  "pid p' \<noteq> i \<Longrightarrow> findById (updateOne p' st) i = findById st i"
  unfolding findById_def by (induction st) auto

lemma pid_react [simp]: "pid (react u t p) = pid p"
  by (simp add: react_def Let_def)

lemma set_without [simp]: "set (without u xs) = set xs - {u}"
  by (auto simp: without_def)

section \<open>Reaction invariant\<close>

lemma react_disjoint: "disjoint_reactions p \<Longrightarrow> disjoint_reactions (react u t p)"
  by (auto simp: disjoint_reactions_def react_def Let_def)

lemma clear_disjoint:
  "disjoint_reactions p \<Longrightarrow>
   disjoint_reactions (p\<lparr>likes := without u (likes p), dislikes := without u (dislikes p)\<rparr>)"
  by (auto simp: disjoint_reactions_def)

lemma reaction_step_keeps:
  assumes "findById st i = Some p" and "disjoint_reactions p"
  shows "\<exists>p'. findById (reaction_step st r) i = Some p' \<and> disjoint_reactions p'"
proof (cases r)
  case (SetReaction j u t)
  show ?thesis
  proof (cases "findById st j")
    case None
    with SetReaction assms show ?thesis
      by (auto simp: setReaction_def split: option.splits)
  next
    case (Some q)
    then have pq: "pid q = j" by (rule findById_pid)
    show ?thesis
    proof (cases "j = i")
      case True
      with Some assms have qp: "q = p" by simp
      from True SetReaction assms qp pq show ?thesis
        by (auto simp: setReaction_def Let_def findById_updateOne_same react_disjoint
                 split: option.splits)
    next
      case False
      with SetReaction Some assms pq show ?thesis
        by (auto simp: setReaction_def Let_def findById_updateOne_other split: option.splits)
    qed
  qed
next
  case (ClearReaction j u)
  show ?thesis
  proof (cases "findById st j")
    case None
    with ClearReaction assms show ?thesis by (simp add: clearReaction_def)
  next
    case (Some q)
    then have pq: "pid q = j" by (rule findById_pid)
    show ?thesis
    proof (cases "j = i")
      case True
      with Some assms have qp: "q = p" by simp
      from True ClearReaction assms qp pq clear_disjoint [OF assms(2), of u] show ?thesis
        by (simp add: clearReaction_def Let_def findById_updateOne_same)
    next
      case False
      with ClearReaction Some assms pq show ?thesis
        by (simp add: clearReaction_def Let_def findById_updateOne_other)
    qed
  qed
qed

lemma reaction_run_keeps:
  "findById st i = Some p \<Longrightarrow> disjoint_reactions p \<Longrightarrow>
   \<exists>p'. findById (foldl reaction_step st rs) i = Some p' \<and> disjoint_reactions p'"
proof (induction rs arbitrary: st p)
  case Nil
  then show ?case by simp
next
  case (Cons r rs)
  from reaction_step_keeps [OF Cons.prems] obtain q
    where "findById (reaction_step st r) i = Some q" and "disjoint_reactions q" by blast
  from Cons.IH [OF this] show ?case by simp
qed

section \<open>The reaction transitions\<close>

lemma setReaction_found:
  "findById st i = Some p \<Longrightarrow> t = ''like'' \<or> t = ''dislike'' \<Longrightarrow>
   setReaction st i u (Some t) =
     (Inr \<lparr>likes_count = length (likes (react u t p)),
           dislikes_count = length (dislikes (react u t p)),
           user_reaction = userReaction u (react u t p)\<rparr>,
      updateOne (react u t p) st)"
  by (auto simp: setReaction_def Let_def)

lemma findById_after_react:
  "findById st i = Some p \<Longrightarrow> findById (updateOne (react u t p) st) i = Some (react u t p)"
  by (rule findById_updateOne_same) (simp_all add: findById_pid)

lemma react_from_none:
  "u \<notin> set (likes p) \<Longrightarrow> u \<notin> set (dislikes p) \<Longrightarrow>
   userReaction u (react u ''like'' p) = Some ''like'' \<and>
   userReaction u (react u ''dislike'' p) = Some ''dislike''"
  by (simp add: react_def userReaction_def Let_def)

lemma react_from_liked:
  "u \<in> set (likes p) \<Longrightarrow> u \<notin> set (dislikes p) \<Longrightarrow>
   userReaction u (react u ''like'' p) = None \<and>
   u \<notin> set (likes (react u ''like'' p)) \<and>
   userReaction u (react u ''dislike'' p) = Some ''dislike''"
  by (simp add: react_def userReaction_def Let_def)

lemma react_from_disliked:
  "u \<notin> set (likes p) \<Longrightarrow> u \<in> set (dislikes p) \<Longrightarrow>
   userReaction u (react u ''dislike'' p) = None \<and>
   u \<notin> set (dislikes (react u ''dislike'' p)) \<and>
   userReaction u (react u ''like'' p) = Some ''like''"
  by (simp add: react_def userReaction_def Let_def)

lemma react_like_like:
  "u \<notin> set (likes p) \<Longrightarrow>
   userReaction u (react u ''like'' (react u ''like'' p)) = None \<and>
   u \<notin> set (likes (react u ''like'' (react u ''like'' p)))"
  by (simp add: react_def userReaction_def Let_def)

lemma react_like_dislike:
  "\<not> (u \<in> set (likes p) \<and> u \<in> set (dislikes p)) \<Longrightarrow>
   u \<in> set (dislikes (react u ''dislike'' (react u ''like'' p))) \<and>
   u \<notin> set (likes (react u ''dislike'' (react u ''like'' p)))"
  by (auto simp add: react_def userReaction_def Let_def)

lemma setReaction_twice:
  assumes "findById st i = Some p"
    and "t1 = ''like'' \<or> t1 = ''dislike''" and "t2 = ''like'' \<or> t2 = ''dislike''"
  shows "findById (snd (setReaction (snd (setReaction st i u (Some t1))) i u (Some t2))) i =
           Some (react u t2 (react u t1 p)) \<and>
         fst (setReaction (snd (setReaction st i u (Some t1))) i u (Some t2)) =
           Inr \<lparr>likes_count = length (likes (react u t2 (react u t1 p))),
                dislikes_count = length (dislikes (react u t2 (react u t1 p))),
                user_reaction = userReaction u (react u t2 (react u t1 p))\<rparr>"
proof -
  let ?st1 = "updateOne (react u t1 p) st"
  have s1: "snd (setReaction st i u (Some t1)) = ?st1"
    using setReaction_found [OF assms(1,2)] by simp
  have f1: "findById ?st1 i = Some (react u t1 p)"
    using assms(1) by (rule findById_after_react)
  show ?thesis
    unfolding s1 using setReaction_found [OF f1 assms(3), of u] findById_after_react [OF f1, of u t2]
    by simp
qed

lemma clearReaction_found:
  "findById st i = Some p \<Longrightarrow>
   clearReaction st i u =
     (Inr \<lparr>likes_count = length (without u (likes p)),
           dislikes_count = length (without u (dislikes p)),
           user_reaction = None\<rparr>,
      updateOne (p\<lparr>likes := without u (likes p), dislikes := without u (dislikes p)\<rparr>) st)"
  by (simp add: clearReaction_def Let_def)

lemma findById_append_new:
  "pid p \<notin> pid ` set st \<Longrightarrow> findById (st @ [p]) (pid p) = Some p"
  unfolding findById_def by (induction st) auto

lemma createPost_valid:
  assumes "c \<noteq> []" and "length c \<le> 280" and "t \<in> set validPostTypes" and "trim l \<noteq> []"
    and "file \<noteq> UploadFails" and "oid \<notin> pid ` set st"
  shows "createPost st oid now actor (Some c) (Some t) (Some l) file =
           (Inr (new_Post oid now actor c t l (image_of file)),
            st @ [new_Post oid now actor c t l (image_of file)])"
proof -
  from assms(4) have l: "l \<noteq> []" by (auto simp: trim_def)
  from assms(3) have t: "t \<noteq> []" by (auto simp: validPostTypes_def)
  have v: "validate (new_Post oid now actor c t l (image_of file))"
    using assms(1-4) by (simp add: validate_def new_Post_def)
  show ?thesis
    using assms l t v by (simp add: createPost_def falsy_def str_def Let_def)
qed



lemma sorted_desc_page: "sorted_desc ys \<Longrightarrow> sorted_desc (limit_docs n (drop k ys))"
  by (simp add: sorted_desc_def limit_docs_def sorted_wrt_drop sorted_wrt_take)

lemma find_sort_keys:
  assumes "find_sort f st ys"
  shows "sorted (map createdAt (rev ys))"
proof -
  from assms have "sorted_wrt (\<lambda>a b. createdAt b \<le> createdAt a) ys"
    by (simp add: find_sort_def sorted_desc_def)
  then have "sorted_wrt (\<lambda>a b. createdAt a \<le> createdAt b) (rev ys)"
    by (simp only: sorted_wrt_rev)
  then show ?thesis by (simp only: sorted_map)
qed

lemma find_sort_unique:
  assumes ys: "find_sort f st ys" and zs: "find_sort f st zs"
    and inj: "inj_on createdAt (set (filter f st))"
  shows "ys = zs"
proof -
  from ys zs have m: "mset ys = mset zs" by (simp add: find_sort_def)
  then have mk: "mset (map createdAt (rev ys)) = mset (map createdAt (rev zs))" by simp
  have "sort (map createdAt (rev zs)) = map createdAt (rev ys)"
    using mk find_sort_keys [OF ys] by (rule properties_for_sort)
  moreover have "sort (map createdAt (rev zs)) = map createdAt (rev zs)"
    using find_sort_keys [OF zs] by (rule sorted_sort_id)
  ultimately have "map createdAt (rev ys) = map createdAt (rev zs)" by simp
  then have "rev (map createdAt ys) = rev (map createdAt zs)" by (simp only: rev_map)
  then have k: "map createdAt ys = map createdAt zs" by simp
  from ys have "set ys = set (filter f st)" unfolding find_sort_def by (metis set_mset_mset)
  moreover from zs have "set zs = set (filter f st)"
    unfolding find_sort_def by (metis set_mset_mset)
  ultimately have "inj_on createdAt (set ys \<union> set zs)" using inj by simp
  from inj_on_map_eq_map [OF this] k show ?thesis by simp
qed

lemma updateOne_split:
  "findById st i = Some p \<Longrightarrow>
   \<exists>xs ys. st = xs @ p # ys \<and> (\<forall>q\<in>set xs. pid q \<noteq> i) \<and>
     (\<forall>p'. pid p' = i \<longrightarrow> updateOne p' st = xs @ p' # ys)"
proof (induction st)
  case Nil
  then show ?case by (simp add: findById_def)
next
  case (Cons q qs)
  show ?case
  proof (cases "pid q = i")
    case True
    with Cons.prems have "q = p" by (simp add: findById_def)
    with True have "q # qs = [] @ p # qs \<and> (\<forall>q\<in>set []. pid q \<noteq> i) \<and>
      (\<forall>p'. pid p' = i \<longrightarrow> updateOne p' (q # qs) = [] @ p' # qs)" by simp
    then show ?thesis by blast
  next
    case False
    with Cons.prems have "findById qs i = Some p" by (simp add: findById_def)
    from Cons.IH [OF this] obtain xs ys
      where s: "qs = xs @ p # ys" and n: "\<forall>q\<in>set xs. pid q \<noteq> i"
        and u: "\<forall>p'. pid p' = i \<longrightarrow> updateOne p' qs = xs @ p' # ys" by blast
    from s n u False
    have "q # qs = (q # xs) @ p # ys \<and> (\<forall>r\<in>set (q # xs). pid r \<noteq> i) \<and>
      (\<forall>p'. pid p' = i \<longrightarrow> updateOne p' (q # qs) = (q # xs) @ p' # ys)" by simp
    then show ?thesis by blast
  qed
qed

lemma userReaction_cleared:
  "userReaction v (p\<lparr>likes := filter (\<lambda>w. w \<noteq> u) (likes p),
                     dislikes := filter (\<lambda>w. w \<noteq> u) (dislikes p)\<rparr>) =
   (if v = u then None else userReaction v p)"
  by (simp add: userReaction_def)



section \<open>Claims\<close>

text \<open>
  C1. For a post whose likes and dislikes are disjoint, after every prefix of every
  sequence of set-reaction and clear-reaction requests (on this post or on others, by
  any users, with any type) the post is still stored under its id and its likes and
  dislikes are disjoint: no user is in both.
\<close>

theorem reactions_stay_disjoint:
  assumes "findById st i = Some p" and "disjoint_reactions p"
  shows "\<forall>n. \<exists>p'. findById (foldl reaction_step st (take n rs)) i = Some p' \<and>
            disjoint_reactions p' \<and>
            (\<forall>u. \<not> (u \<in> set (likes p') \<and> u \<in> set (dislikes p')))"
proof
  fix n
  from reaction_run_keeps [OF assms, of "take n rs"] obtain p'
    where "findById (foldl reaction_step st (take n rs)) i = Some p'"
      and d: "disjoint_reactions p'"
    by blast
  moreover from d have "\<forall>u. \<not> (u \<in> set (likes p') \<and> u \<in> set (dislikes p'))"
    by (auto simp: disjoint_reactions_def)
  ultimately show "\<exists>p'. findById (foldl reaction_step st (take n rs)) i = Some p' \<and>
            disjoint_reactions p' \<and>
            (\<forall>u. \<not> (u \<in> set (likes p') \<and> u \<in> set (dislikes p')))"
    by blast
qed

theorem reactions_stay_disjoint_witness:
  "findById sample_store 1 = Some sample_post \<and> disjoint_reactions sample_post \<and>
   (\<forall>n. \<exists>p'. findById (foldl reaction_step sample_store
            (take n [SetReaction 1 7 (Some ''like''), SetReaction 1 7 (Some ''dislike''),
                     SetReaction 1 8 (Some ''like''), ClearReaction 1 7])) 1 = Some p' \<and>
          disjoint_reactions p' \<and>
          (\<forall>u. \<not> (u \<in> set (likes p') \<and> u \<in> set (dislikes p'))))"
proof -
  have f: "findById sample_store 1 = Some sample_post"
    by (simp add: findById_def sample_store_def sample_post_def)
  have d: "disjoint_reactions sample_post"
    by (simp add: disjoint_reactions_def sample_post_def)
  from f d reactions_stay_disjoint [OF f d] show ?thesis by blast
qed

text \<open>
  C2. For a stored post with disjoint likes and dislikes and a user \<open>u\<close>, a set-reaction
  request follows the transition table: with no reaction, like gives like and dislike
  gives dislike; from like, like gives none (and \<open>u\<close> leaves the likes) and dislike gives
  dislike; from dislike, dislike gives none and like gives like. The response reports the
  reaction of \<open>u\<close> in the post as stored afterwards. When \<open>u\<close> is not in the likes before,
  two successive like requests leave \<open>u\<close> without reaction and out of the likes; a like
  request followed by a dislike request leaves \<open>u\<close> in the dislikes and out of the likes.
\<close>

theorem reaction_transitions:
  assumes "findById st i = Some p" and "disjoint_reactions p"
  shows "(userReaction u p = None \<longrightarrow>
            userReaction u (react u ''like'' p) = Some ''like'' \<and>
            userReaction u (react u ''dislike'' p) = Some ''dislike'') \<and>
         (userReaction u p = Some ''like'' \<longrightarrow>
            userReaction u (react u ''like'' p) = None \<and>
            u \<notin> set (likes (react u ''like'' p)) \<and>
            userReaction u (react u ''dislike'' p) = Some ''dislike'') \<and>
         (userReaction u p = Some ''dislike'' \<longrightarrow>
            userReaction u (react u ''dislike'' p) = None \<and>
            userReaction u (react u ''like'' p) = Some ''like'') \<and>
         (\<forall>k. k = ''like'' \<or> k = ''dislike'' \<longrightarrow>
            setReaction st i u (Some k) =
              (Inr \<lparr>likes_count = length (likes (react u k p)),
                    dislikes_count = length (dislikes (react u k p)),
                    user_reaction = userReaction u (react u k p)\<rparr>,
               updateOne (react u k p) st) \<and>
            findById (updateOne (react u k p) st) i = Some (react u k p) \<and>
            disjoint_reactions (react u k p)) \<and>
         (u \<notin> set (likes p) \<longrightarrow>
            (\<exists>p2. findById (snd (setReaction (snd (setReaction st i u (Some ''like''))) i u
                                  (Some ''like''))) i = Some p2 \<and>
                  user_reaction (projr (fst (setReaction (snd (setReaction st i u (Some ''like'')))
                                  i u (Some ''like'')))) = None \<and>
                  userReaction u p2 = None \<and> u \<notin> set (likes p2))) \<and>
         (\<exists>p2. findById (snd (setReaction (snd (setReaction st i u (Some ''like''))) i u
                               (Some ''dislike''))) i = Some p2 \<and>
               u \<in> set (dislikes p2) \<and> u \<notin> set (likes p2))"
proof -
  from assms(2) have nb: "\<not> (u \<in> set (likes p) \<and> u \<in> set (dislikes p))"
    by (auto simp: disjoint_reactions_def)
  have a: "userReaction u p = None \<longrightarrow>
            userReaction u (react u ''like'' p) = Some ''like'' \<and>
            userReaction u (react u ''dislike'' p) = Some ''dislike''"
    using react_from_none [of u p] by (auto simp: userReaction_def split: if_splits)
  have b: "userReaction u p = Some ''like'' \<longrightarrow>
            userReaction u (react u ''like'' p) = None \<and>
            u \<notin> set (likes (react u ''like'' p)) \<and>
            userReaction u (react u ''dislike'' p) = Some ''dislike''"
    using react_from_liked [of u p] nb by (auto simp: userReaction_def split: if_splits)
  have c: "userReaction u p = Some ''dislike'' \<longrightarrow>
            userReaction u (react u ''dislike'' p) = None \<and>
            userReaction u (react u ''like'' p) = Some ''like''"
    using react_from_disliked [of u p] by (auto simp: userReaction_def split: if_splits)
  have d: "\<forall>k. k = ''like'' \<or> k = ''dislike'' \<longrightarrow>
            setReaction st i u (Some k) =
              (Inr \<lparr>likes_count = length (likes (react u k p)),
                    dislikes_count = length (dislikes (react u k p)),
                    user_reaction = userReaction u (react u k p)\<rparr>,
               updateOne (react u k p) st) \<and>
            findById (updateOne (react u k p) st) i = Some (react u k p) \<and>
            disjoint_reactions (react u k p)"
  proof (intro allI impI)
    fix k :: string
    assume k: "k = ''like'' \<or> k = ''dislike''"
    show "setReaction st i u (Some k) =
              (Inr \<lparr>likes_count = length (likes (react u k p)),
                    dislikes_count = length (dislikes (react u k p)),
                    user_reaction = userReaction u (react u k p)\<rparr>,
               updateOne (react u k p) st) \<and>
            findById (updateOne (react u k p) st) i = Some (react u k p) \<and>
            disjoint_reactions (react u k p)"
      using setReaction_found [OF assms(1) k, of u] findById_after_react [OF assms(1), of u k]
        react_disjoint [OF assms(2), of u k] by simp
  qed
  have e: "u \<notin> set (likes p) \<longrightarrow>
            (\<exists>p2. findById (snd (setReaction (snd (setReaction st i u (Some ''like''))) i u
                                  (Some ''like''))) i = Some p2 \<and>
                  user_reaction (projr (fst (setReaction (snd (setReaction st i u (Some ''like'')))
                                  i u (Some ''like'')))) = None \<and>
                  userReaction u p2 = None \<and> u \<notin> set (likes p2))"
    using setReaction_twice [OF assms(1), of "''like''" "''like''" u] react_like_like [of u p]
    by simp
  have f: "\<exists>p2. findById (snd (setReaction (snd (setReaction st i u (Some ''like''))) i u
                               (Some ''dislike''))) i = Some p2 \<and>
               u \<in> set (dislikes p2) \<and> u \<notin> set (likes p2)"
    using setReaction_twice [OF assms(1), of "''like''" "''dislike''" u]
      react_like_dislike [OF nb] by simp
  show ?thesis
    by (rule conjI [OF a conjI [OF b conjI [OF c conjI [OF d conjI [OF e f]]]]])
qed

theorem reaction_transitions_witness:
  "findById sample_store 1 = Some sample_post \<and> disjoint_reactions sample_post \<and>
   userReaction 7 sample_post = None \<and> 7 \<notin> set (likes sample_post) \<and>
   userReaction 7 (react 7 ''like'' sample_post) = Some ''like'' \<and>
   userReaction 7 (react 7 ''dislike'' sample_post) = Some ''dislike'' \<and>
   (\<exists>p2. findById (snd (setReaction (snd (setReaction sample_store 1 7 (Some ''like''))) 1 7
                         (Some ''like''))) 1 = Some p2 \<and>
         userReaction 7 p2 = None \<and> 7 \<notin> set (likes p2)) \<and>
   (\<exists>p2. findById (snd (setReaction (snd (setReaction sample_store 1 7 (Some ''like''))) 1 7
                         (Some ''dislike''))) 1 = Some p2 \<and>
         7 \<in> set (dislikes p2) \<and> 7 \<notin> set (likes p2)) \<and>
   findById [liked_post] 1 = Some liked_post \<and> disjoint_reactions liked_post \<and>
   userReaction 7 liked_post = Some ''like'' \<and>
   userReaction 7 (react 7 ''like'' liked_post) = None \<and>
   userReaction 7 (react 7 ''dislike'' liked_post) = Some ''dislike'' \<and>
   findById [disliked_post] 1 = Some disliked_post \<and> disjoint_reactions disliked_post \<and>
   userReaction 7 disliked_post = Some ''dislike'' \<and>
   userReaction 7 (react 7 ''dislike'' disliked_post) = None \<and>
   userReaction 7 (react 7 ''like'' disliked_post) = Some ''like''"
proof -
  have f: "findById sample_store 1 = Some sample_post"
    by (simp add: findById_def sample_store_def sample_post_def)
  have d: "disjoint_reactions sample_post"
    by (simp add: disjoint_reactions_def sample_post_def)
  have n: "userReaction 7 sample_post = None"
    by (simp add: userReaction_def sample_post_def)
  have l: "7 \<notin> set (likes sample_post)"
    by (simp add: sample_post_def)
  have fl: "findById [liked_post] 1 = Some liked_post"
    by (simp add: findById_def liked_post_def sample_post_def)
  have dl: "disjoint_reactions liked_post"
    by (simp add: disjoint_reactions_def liked_post_def sample_post_def)
  have nl: "userReaction 7 liked_post = Some ''like''"
    by (simp add: userReaction_def liked_post_def sample_post_def)
  have fd: "findById [disliked_post] 1 = Some disliked_post"
    by (simp add: findById_def disliked_post_def sample_post_def)
  have dd: "disjoint_reactions disliked_post"
    by (simp add: disjoint_reactions_def disliked_post_def sample_post_def)
  have nd: "userReaction 7 disliked_post = Some ''dislike''"
    by (simp add: userReaction_def disliked_post_def sample_post_def)
  from reaction_transitions [OF f d, of 7] f d n l
  have a: "findById sample_store 1 = Some sample_post \<and> disjoint_reactions sample_post \<and>
   userReaction 7 sample_post = None \<and> 7 \<notin> set (likes sample_post) \<and>
   userReaction 7 (react 7 ''like'' sample_post) = Some ''like'' \<and>
   userReaction 7 (react 7 ''dislike'' sample_post) = Some ''dislike'' \<and>
   (\<exists>p2. findById (snd (setReaction (snd (setReaction sample_store 1 7 (Some ''like''))) 1 7
                         (Some ''like''))) 1 = Some p2 \<and>
         userReaction 7 p2 = None \<and> 7 \<notin> set (likes p2)) \<and>
   (\<exists>p2. findById (snd (setReaction (snd (setReaction sample_store 1 7 (Some ''like''))) 1 7
                         (Some ''dislike''))) 1 = Some p2 \<and>
         7 \<in> set (dislikes p2) \<and> 7 \<notin> set (likes p2))"
    by blast
  from reaction_transitions [OF fl dl, of 7, THEN conjunct2, THEN conjunct1] nl
  have b: "userReaction 7 (react 7 ''like'' liked_post) = None \<and>
           userReaction 7 (react 7 ''dislike'' liked_post) = Some ''dislike''"
    by simp
  from reaction_transitions [OF fd dd, of 7, THEN conjunct2, THEN conjunct2, THEN conjunct1] nd
  have c: "userReaction 7 (react 7 ''dislike'' disliked_post) = None \<and>
           userReaction 7 (react 7 ''like'' disliked_post) = Some ''like''"
    by simp
  from a b c fl dl nl fd dd nd show ?thesis by simp
qed

text \<open>
  The second of two successive like requests by a user who had liked the post before the
  first one puts the like back.
\<close>

theorem double_like_counterexample:
  "findById [liked_post] 1 = Some liked_post \<and> disjoint_reactions liked_post \<and>
   setReaction (snd (setReaction [liked_post] 1 7 (Some ''like''))) 1 7 (Some ''like'') =
     (Inr \<lparr>likes_count = 1, dislikes_count = 0, user_reaction = Some ''like''\<rparr>, [liked_post])"
  by (simp add: liked_post_def sample_post_def findById_def disjoint_reactions_def
        setReaction_def react_def userReaction_def without_def Let_def)

text \<open>
  C6. A clear-reaction request by user \<open>u\<close> on a stored post answers with success,
  whatever the reaction of \<open>u\<close> was, and puts in the place of the post the same post with
  \<open>u\<close>, and only \<open>u\<close>, taken out of the likes and out of the dislikes; every other post
  of the collection stays as it is. The response carries the lengths of the two new lists
  and the reaction none; afterwards \<open>u\<close> has no reaction and every other user the
  reaction they had. The request fails only when no post has the id, and then with
  not-found and the collection as it was.
\<close>

theorem clearReaction_clears:
  "(findById st i = None \<longrightarrow> clearReaction st i u = (Inl NotFound, st)) \<and>
   (\<forall>p. findById st i = Some p \<longrightarrow>
      (\<exists>xs ys. st = xs @ p # ys \<and> (\<forall>q\<in>set xs. pid q \<noteq> i) \<and>
         clearReaction st i u =
           (Inr \<lparr>likes_count = length (filter (\<lambda>w. w \<noteq> u) (likes p)),
                 dislikes_count = length (filter (\<lambda>w. w \<noteq> u) (dislikes p)),
                 user_reaction = None\<rparr>,
            xs @ p\<lparr>likes := filter (\<lambda>w. w \<noteq> u) (likes p),
                    dislikes := filter (\<lambda>w. w \<noteq> u) (dislikes p)\<rparr> # ys)) \<and>
      findById (snd (clearReaction st i u)) i =
        Some (p\<lparr>likes := filter (\<lambda>w. w \<noteq> u) (likes p),
                 dislikes := filter (\<lambda>w. w \<noteq> u) (dislikes p)\<rparr>) \<and>
      (\<forall>j. j \<noteq> i \<longrightarrow> findById (snd (clearReaction st i u)) j = findById st j) \<and>
      u \<notin> set (filter (\<lambda>w. w \<noteq> u) (likes p)) \<and>
      u \<notin> set (filter (\<lambda>w. w \<noteq> u) (dislikes p)) \<and>
      (\<forall>v. v \<noteq> u \<longrightarrow>
         (v \<in> set (filter (\<lambda>w. w \<noteq> u) (likes p)) \<longleftrightarrow> v \<in> set (likes p)) \<and>
         (v \<in> set (filter (\<lambda>w. w \<noteq> u) (dislikes p)) \<longleftrightarrow> v \<in> set (dislikes p))) \<and>
      (\<forall>v. userReaction v (p\<lparr>likes := filter (\<lambda>w. w \<noteq> u) (likes p),
                               dislikes := filter (\<lambda>w. w \<noteq> u) (dislikes p)\<rparr>) =
           (if v = u then None else userReaction v p))) \<and>
   (\<forall>e. fst (clearReaction st i u) = Inl e \<longrightarrow> e = NotFound \<and> findById st i = None)"
proof -
  have a: "findById st i = None \<longrightarrow> clearReaction st i u = (Inl NotFound, st)"
    by (simp add: clearReaction_def)
  have b: "\<forall>p. findById st i = Some p \<longrightarrow>
      (\<exists>xs ys. st = xs @ p # ys \<and> (\<forall>q\<in>set xs. pid q \<noteq> i) \<and>
         clearReaction st i u =
           (Inr \<lparr>likes_count = length (filter (\<lambda>w. w \<noteq> u) (likes p)),
                 dislikes_count = length (filter (\<lambda>w. w \<noteq> u) (dislikes p)),
                 user_reaction = None\<rparr>,
            xs @ p\<lparr>likes := filter (\<lambda>w. w \<noteq> u) (likes p),
                    dislikes := filter (\<lambda>w. w \<noteq> u) (dislikes p)\<rparr> # ys)) \<and>
      findById (snd (clearReaction st i u)) i =
        Some (p\<lparr>likes := filter (\<lambda>w. w \<noteq> u) (likes p),
                 dislikes := filter (\<lambda>w. w \<noteq> u) (dislikes p)\<rparr>) \<and>
      (\<forall>j. j \<noteq> i \<longrightarrow> findById (snd (clearReaction st i u)) j = findById st j) \<and>
      u \<notin> set (filter (\<lambda>w. w \<noteq> u) (likes p)) \<and>
      u \<notin> set (filter (\<lambda>w. w \<noteq> u) (dislikes p)) \<and>
      (\<forall>v. v \<noteq> u \<longrightarrow>
         (v \<in> set (filter (\<lambda>w. w \<noteq> u) (likes p)) \<longleftrightarrow> v \<in> set (likes p)) \<and>
         (v \<in> set (filter (\<lambda>w. w \<noteq> u) (dislikes p)) \<longleftrightarrow> v \<in> set (dislikes p))) \<and>
      (\<forall>v. userReaction v (p\<lparr>likes := filter (\<lambda>w. w \<noteq> u) (likes p),
                               dislikes := filter (\<lambda>w. w \<noteq> u) (dislikes p)\<rparr>) =
           (if v = u then None else userReaction v p))"
  proof (intro allI impI)
    fix p
    assume f: "findById st i = Some p"
    let ?p' = "p\<lparr>likes := filter (\<lambda>w. w \<noteq> u) (likes p),
                  dislikes := filter (\<lambda>w. w \<noteq> u) (dislikes p)\<rparr>"
    have pi: "pid ?p' = i" using findById_pid [OF f] by simp
    have c: "clearReaction st i u =
        (Inr \<lparr>likes_count = length (filter (\<lambda>w. w \<noteq> u) (likes p)),
              dislikes_count = length (filter (\<lambda>w. w \<noteq> u) (dislikes p)),
              user_reaction = None\<rparr>, updateOne ?p' st)"
      using clearReaction_found [OF f, of u] by (simp add: without_def)
    from updateOne_split [OF f] obtain xs ys
      where s: "st = xs @ p # ys" and n: "\<forall>q\<in>set xs. pid q \<noteq> i"
        and up: "\<forall>p'. pid p' = i \<longrightarrow> updateOne p' st = xs @ p' # ys" by blast
    from up pi have u1: "updateOne ?p' st = xs @ ?p' # ys" by blast
    have 1: "\<exists>xs ys. st = xs @ p # ys \<and> (\<forall>q\<in>set xs. pid q \<noteq> i) \<and>
         clearReaction st i u =
           (Inr \<lparr>likes_count = length (filter (\<lambda>w. w \<noteq> u) (likes p)),
                 dislikes_count = length (filter (\<lambda>w. w \<noteq> u) (dislikes p)),
                 user_reaction = None\<rparr>,
            xs @ ?p' # ys)"
      using s n c u1 by auto
    have 2: "findById (snd (clearReaction st i u)) i = Some ?p'"
      unfolding c using findById_updateOne_same [OF f pi] by simp
    have 3: "\<forall>j. j \<noteq> i \<longrightarrow> findById (snd (clearReaction st i u)) j = findById st j"
      unfolding c using pi by (simp add: findById_updateOne_other)
    have 4: "u \<notin> set (filter (\<lambda>w. w \<noteq> u) (likes p))" by simp
    have 5: "u \<notin> set (filter (\<lambda>w. w \<noteq> u) (dislikes p))" by simp
    have 6: "\<forall>v. v \<noteq> u \<longrightarrow>
         (v \<in> set (filter (\<lambda>w. w \<noteq> u) (likes p)) \<longleftrightarrow> v \<in> set (likes p)) \<and>
         (v \<in> set (filter (\<lambda>w. w \<noteq> u) (dislikes p)) \<longleftrightarrow> v \<in> set (dislikes p))"
      by simp
    have 7: "\<forall>v. userReaction v ?p' = (if v = u then None else userReaction v p)"
      using userReaction_cleared by blast
    show "(\<exists>xs ys. st = xs @ p # ys \<and> (\<forall>q\<in>set xs. pid q \<noteq> i) \<and>
         clearReaction st i u =
           (Inr \<lparr>likes_count = length (filter (\<lambda>w. w \<noteq> u) (likes p)),
                 dislikes_count = length (filter (\<lambda>w. w \<noteq> u) (dislikes p)),
                 user_reaction = None\<rparr>,
            xs @ ?p' # ys)) \<and>
      findById (snd (clearReaction st i u)) i = Some ?p' \<and>
      (\<forall>j. j \<noteq> i \<longrightarrow> findById (snd (clearReaction st i u)) j = findById st j) \<and>
      u \<notin> set (filter (\<lambda>w. w \<noteq> u) (likes p)) \<and>
      u \<notin> set (filter (\<lambda>w. w \<noteq> u) (dislikes p)) \<and>
      (\<forall>v. v \<noteq> u \<longrightarrow>
         (v \<in> set (filter (\<lambda>w. w \<noteq> u) (likes p)) \<longleftrightarrow> v \<in> set (likes p)) \<and>
         (v \<in> set (filter (\<lambda>w. w \<noteq> u) (dislikes p)) \<longleftrightarrow> v \<in> set (dislikes p))) \<and>
      (\<forall>v. userReaction v ?p' = (if v = u then None else userReaction v p))"
      by (rule conjI [OF 1 conjI [OF 2 conjI [OF 3 conjI [OF 4 conjI [OF 5 conjI [OF 6 7]]]]]])
  qed
  have c: "\<forall>e. fst (clearReaction st i u) = Inl e \<longrightarrow> e = NotFound \<and> findById st i = None"
    by (cases "findById st i") (simp_all add: clearReaction_def Let_def)
  show ?thesis by (rule conjI [OF a conjI [OF b c]])
qed

theorem clearReaction_clears_witness:
  "findById reaction_store 1 = Some reacted_post \<and>
   clearReaction reaction_store 1 7 =
     (Inr \<lparr>likes_count = 2, dislikes_count = 1, user_reaction = None\<rparr>,
      [other_post, cleared_post]) \<and>
   findById [other_post, cleared_post] 1 = Some cleared_post \<and>
   findById [other_post, cleared_post] 2 = Some other_post \<and>
   likes cleared_post = [8, 9] \<and> dislikes cleared_post = [6] \<and>
   userReaction 7 cleared_post = None \<and>
   userReaction 8 cleared_post = Some ''like'' \<and>
   userReaction 6 cleared_post = Some ''dislike'' \<and>
   findById reaction_store 3 = None \<and>
   clearReaction reaction_store 3 7 = (Inl NotFound, reaction_store)"
proof -
  have f: "findById reaction_store 1 = Some reacted_post"
    by (simp add: findById_def reaction_store_def reacted_post_def other_post_def
          sample_post_def)
  have n: "findById reaction_store 3 = None"
    by (simp add: findById_def reaction_store_def reacted_post_def other_post_def
          sample_post_def)
  have cp: "reacted_post\<lparr>likes := filter (\<lambda>w. w \<noteq> 7) (likes reacted_post),
                         dislikes := filter (\<lambda>w. w \<noteq> 7) (dislikes reacted_post)\<rparr> =
            cleared_post"
    by (simp add: reacted_post_def cleared_post_def sample_post_def)
  have e: "clearReaction reaction_store 1 7 =
     (Inr \<lparr>likes_count = 2, dislikes_count = 1, user_reaction = None\<rparr>,
      [other_post, cleared_post])"
    by (simp add: clearReaction_def Let_def findById_def without_def reaction_store_def
          reacted_post_def cleared_post_def other_post_def sample_post_def)
  note t = clearReaction_clears [of reaction_store 1 7, THEN conjunct2, THEN conjunct1,
      rule_format, OF f]
  from t have g1: "findById [other_post, cleared_post] 1 = Some cleared_post"
    unfolding cp e by simp
  from t have "findById (snd (clearReaction reaction_store 1 7)) 2 = findById reaction_store 2"
    by simp
  then have g2: "findById [other_post, cleared_post] 2 = Some other_post"
    unfolding e by (simp add: findById_def reaction_store_def other_post_def sample_post_def)
  from t have ur: "\<forall>v. userReaction v cleared_post =
      (if v = 7 then None else userReaction v reacted_post)"
    unfolding cp by blast
  from ur have u7: "userReaction 7 cleared_post = None" by simp
  from ur have u8: "userReaction 8 cleared_post = Some ''like''"
    by (simp add: userReaction_def reacted_post_def sample_post_def)
  from ur have u6: "userReaction 6 cleared_post = Some ''dislike''"
    by (simp add: userReaction_def reacted_post_def sample_post_def)
  have l: "likes cleared_post = [8, 9]" and d: "dislikes cleared_post = [6]"
    by (simp_all add: cleared_post_def)
  from clearReaction_clears [of reaction_store 3 7, THEN conjunct1] n
  have nf: "clearReaction reaction_store 3 7 = (Inl NotFound, reaction_store)" by simp
  show ?thesis by (intro conjI f e g1 g2 l d u7 u8 u6 n nf)
qed

text \<open>
  C10. Update and add-reply with an absent, empty or over-280-character content answer
  with a validation error, and set-reaction with a type other than like or dislike
  answers with the invalid-reaction error, for every id, stored or not; the store is
  left as it was.
\<close>

theorem validation_before_lookup:
  "(falsy c \<or> 280 < length (str c) \<longrightarrow>
      updatePost st i actor c = (Inl ValidationError, st) \<and>
      addReply st i now actor c = (Inl ValidationError, st)) \<and>
   (t \<noteq> Some ''like'' \<and> t \<noteq> Some ''dislike'' \<longrightarrow>
      setReaction st i actor t = (Inl InvalidReactionKind, st))"
  by (auto simp: updatePost_def addReply_def setReaction_def split: option.splits)

theorem validation_before_lookup_witness:
  "findById sample_store 2 = None \<and> falsy (Some []) \<and>
   updatePost sample_store 2 5 (Some []) = (Inl ValidationError, sample_store) \<and>
   addReply sample_store 2 2000 5 (Some []) = (Inl ValidationError, sample_store) \<and>
   280 < length (str (Some (replicate 281 CHR ''a''))) \<and>
   updatePost sample_store 2 5 (Some (replicate 281 CHR ''a'')) =
     (Inl ValidationError, sample_store) \<and>
   addReply sample_store 2 2000 5 (Some (replicate 281 CHR ''a'')) =
     (Inl ValidationError, sample_store) \<and>
   Some ''love'' \<noteq> Some ''like'' \<and> Some ''love'' \<noteq> Some ''dislike'' \<and>
   setReaction sample_store 2 5 (Some ''love'') = (Inl InvalidReactionKind, sample_store)"
proof -
  have n: "findById sample_store 2 = None"
    by (simp add: findById_def sample_store_def sample_post_def)
  have e: "falsy (Some [])" by (simp add: falsy_def)
  have l: "280 < length (str (Some (replicate 281 CHR ''a'')))" by (simp add: str_def)
  have k: "Some ''love'' \<noteq> Some ''like'' \<and> Some ''love'' \<noteq> Some ''dislike''" by simp
  from validation_before_lookup [of "Some []" sample_store 2 5 2000 "Some ''love''"]
    validation_before_lookup [of "Some (replicate 281 CHR ''a'')" sample_store 2 5 2000 None]
    n e l k
  show ?thesis by blast
qed

text \<open>
  C3. For a stored post and an actor other than its author, an update with a content of
  1 to 280 characters and a delete answer not-authorized and leave the store as it was;
  for an id under which nothing is stored, such an update and a delete answer not-found,
  whoever the actor is. (An update whose content is absent, empty or longer is rejected
  before the post is looked up.)
\<close>

theorem ownership_and_existence:
  "(\<forall>p. findById st i = Some p \<and> author p \<noteq> actor \<longrightarrow>
      (\<not> falsy c \<and> length (str c) \<le> 280 \<longrightarrow>
         updatePost st i actor c = (Inl NotAuthorized, st)) \<and>
      deletePost st i actor = (Inl NotAuthorized, st)) \<and>
   (findById st i = None \<longrightarrow>
      (\<not> falsy c \<and> length (str c) \<le> 280 \<longrightarrow>
         updatePost st i actor c = (Inl NotFound, st)) \<and>
      deletePost st i actor = (Inl NotFound, st))"
  by (simp add: updatePost_def deletePost_def)

theorem ownership_and_existence_witness:
  "findById sample_store 1 = Some sample_post \<and> author sample_post \<noteq> 6 \<and>
   \<not> falsy (Some ''edited'') \<and> length (str (Some ''edited'')) \<le> 280 \<and>
   updatePost sample_store 1 6 (Some ''edited'') = (Inl NotAuthorized, sample_store) \<and>
   deletePost sample_store 1 6 = (Inl NotAuthorized, sample_store) \<and>
   findById sample_store 2 = None \<and>
   updatePost sample_store 2 6 (Some ''edited'') = (Inl NotFound, sample_store) \<and>
   deletePost sample_store 2 6 = (Inl NotFound, sample_store)"
proof -
  have f: "findById sample_store 1 = Some sample_post"
    by (simp add: findById_def sample_store_def sample_post_def)
  have a: "author sample_post \<noteq> 6" by (simp add: sample_post_def)
  have n: "findById sample_store 2 = None"
    by (simp add: findById_def sample_store_def sample_post_def)
  have c: "\<not> falsy (Some ''edited'') \<and> length (str (Some ''edited'')) \<le> 280"
    by (simp add: falsy_def str_def)
  from ownership_and_existence [of sample_store 1 6 "Some ''edited''"]
    ownership_and_existence [of sample_store 2 6 "Some ''edited''"] f a n c
  show ?thesis by blast
qed

text \<open>
  An update with empty content by somebody who is not the author, and an update with
  empty content of an id that is not stored, both answer with the validation error.
\<close>

theorem update_empty_content_counterexample:
  "findById sample_store 1 = Some sample_post \<and> author sample_post \<noteq> 6 \<and>
   updatePost sample_store 1 6 (Some []) = (Inl ValidationError, sample_store) \<and>
   findById sample_store 2 = None \<and>
   updatePost sample_store 2 6 (Some []) = (Inl ValidationError, sample_store)"
  by (simp add: findById_def sample_store_def sample_post_def updatePost_def falsy_def)

text \<open>
  C4. A create request with a content of exactly 280 characters, a post type among the
  four, a location that is not blank, no failed upload and an unused object id stores the
  post; a content of 281 characters and an empty content are answered with the
  validation error, whatever the other fields, and the store is left as it was.
\<close>

theorem content_boundary:
  "(length c = 280 \<and> t \<in> set validPostTypes \<and> trim l \<noteq> [] \<and> file \<noteq> UploadFails \<and>
    oid \<notin> pid ` set st \<longrightarrow>
      createPost st oid now actor (Some c) (Some t) (Some l) file =
        (Inr (new_Post oid now actor c t l (image_of file)),
         st @ [new_Post oid now actor c t l (image_of file)]) \<and>
      content (new_Post oid now actor c t l (image_of file)) = c) \<and>
   (length c = 281 \<longrightarrow>
      createPost st oid now actor (Some c) bt bl file = (Inl ValidationError, st)) \<and>
   createPost st oid now actor (Some []) bt bl file = (Inl ValidationError, st)"
proof -
  have a: "length c = 280 \<and> t \<in> set validPostTypes \<and> trim l \<noteq> [] \<and> file \<noteq> UploadFails \<and>
    oid \<notin> pid ` set st \<longrightarrow>
      createPost st oid now actor (Some c) (Some t) (Some l) file =
        (Inr (new_Post oid now actor c t l (image_of file)),
         st @ [new_Post oid now actor c t l (image_of file)]) \<and>
      content (new_Post oid now actor c t l (image_of file)) = c"
  proof
    assume h: "length c = 280 \<and> t \<in> set validPostTypes \<and> trim l \<noteq> [] \<and>
      file \<noteq> UploadFails \<and> oid \<notin> pid ` set st"
    then have "c \<noteq> []" and "length c \<le> 280" and "t \<in> set validPostTypes"
      and "trim l \<noteq> []" and "file \<noteq> UploadFails" and "oid \<notin> pid ` set st" by auto
    then have "createPost st oid now actor (Some c) (Some t) (Some l) file =
        (Inr (new_Post oid now actor c t l (image_of file)),
         st @ [new_Post oid now actor c t l (image_of file)])"
      by (rule createPost_valid)
    then show "createPost st oid now actor (Some c) (Some t) (Some l) file =
        (Inr (new_Post oid now actor c t l (image_of file)),
         st @ [new_Post oid now actor c t l (image_of file)]) \<and>
      content (new_Post oid now actor c t l (image_of file)) = c"
      by (simp add: new_Post_def)
  qed
  have b: "length c = 281 \<longrightarrow>
      createPost st oid now actor (Some c) bt bl file = (Inl ValidationError, st)"
    by (simp add: createPost_def str_def)
  have d: "createPost st oid now actor (Some []) bt bl file = (Inl ValidationError, st)"
    by (simp add: createPost_def falsy_def)
  show ?thesis by (rule conjI [OF a conjI [OF b d]])
qed

theorem content_boundary_witness:
  "length (replicate 280 CHR ''a'') = 280 \<and> ''help'' \<in> set validPostTypes \<and>
   trim ''Paris'' \<noteq> [] \<and> NoFile \<noteq> UploadFails \<and> 2 \<notin> pid ` set sample_store \<and>
   fst (createPost sample_store 2 2000 5 (Some (replicate 280 CHR ''a'')) (Some ''help'')
          (Some ''Paris'') NoFile) =
     Inr (new_Post 2 2000 5 (replicate 280 CHR ''a'') ''help'' ''Paris'' None) \<and>
   length (replicate 281 CHR ''a'') = 281 \<and>
   createPost sample_store 2 2000 5 (Some (replicate 281 CHR ''a'')) (Some ''help'')
     (Some ''Paris'') NoFile = (Inl ValidationError, sample_store)"
proof -
  have 1: "length (replicate 280 CHR ''a'') = 280" by simp
  have 2: "''help'' \<in> set validPostTypes" by (simp add: validPostTypes_def)
  have 3: "trim ''Paris'' \<noteq> []" by (simp add: trim_def is_space_def)
  have 4: "NoFile \<noteq> UploadFails" by simp
  have 5: "2 \<notin> pid ` set sample_store" by (simp add: sample_store_def sample_post_def)
  have 6: "length (replicate 281 CHR ''a'') = 281" by simp
  from content_boundary [of "replicate 280 CHR ''a''" "''help''" "''Paris''" NoFile 2
      sample_store 2000 5 "Some ''help''" "Some ''Paris''"] 1 2 3 4 5
  have 7: "fst (createPost sample_store 2 2000 5 (Some (replicate 280 CHR ''a''))
      (Some ''help'') (Some ''Paris'') NoFile) =
     Inr (new_Post 2 2000 5 (replicate 280 CHR ''a'') ''help'' ''Paris'' None)"
    by simp
  from content_boundary [of "replicate 281 CHR ''a''" "''help''" "''Paris''" NoFile 2
      sample_store 2000 5 "Some ''help''" "Some ''Paris''"] 6
  have 8: "createPost sample_store 2 2000 5 (Some (replicate 281 CHR ''a'')) (Some ''help'')
     (Some ''Paris'') NoFile = (Inl ValidationError, sample_store)"
    by blast
  from 1 2 3 4 5 6 7 8 show ?thesis by blast
qed

text \<open>
  A content of 280 characters does not make a create request succeed by itself: with a
  post type outside the four the route answers 400, and with a location of blanks only,
  which passes the checks of the route, the required-validator rejects the trimmed
  location and the route answers 500. Nothing is stored in either case.
\<close>

theorem content_280_rejected_counterexample:
  "length (replicate 280 CHR ''a'') = 280 \<and>
   createPost sample_store 2 2000 5 (Some (replicate 280 CHR ''a'')) (Some ''news'')
     (Some ''Paris'') NoFile = (Inl ValidationError, sample_store) \<and>
   createPost sample_store 2 2000 5 (Some (replicate 280 CHR ''a'')) (Some ''help'')
     (Some ''  '') NoFile = (Inl ServerError, sample_store)"
  by (simp add: createPost_def falsy_def str_def validPostTypes_def Let_def validate_def
        new_Post_def trim_def is_space_def)

text \<open>
  C7. For a create request with a content of 1 to 280 characters, a post type among the
  four, a location that is not blank, no failed upload and an unused object id, create
  followed by get on the returned id yields the stored post: its content, post type and
  author are the inputs, its location is the input with the white space at both ends
  removed, its likes, dislikes and replies are empty, its id is the new object id and
  its creation date the time of the request.
\<close>

theorem create_then_get:
  assumes "c \<noteq> []" and "length c \<le> 280" and "t \<in> set validPostTypes" and "trim l \<noteq> []"
    and "file \<noteq> UploadFails" and "oid \<notin> pid ` set st"
  shows "\<exists>p st'. createPost st oid now actor (Some c) (Some t) (Some l) file = (Inr p, st') \<and>
           getPost st' (pid p) = Inr p \<and>
           pid p = oid \<and> createdAt p = now \<and>
           content p = c \<and> postType p = t \<and> location p = trim l \<and> author p = actor \<and>
           likes p = [] \<and> dislikes p = [] \<and> replies p = []"
proof -
  let ?p = "new_Post oid now actor c t l (image_of file)"
  have c: "createPost st oid now actor (Some c) (Some t) (Some l) file = (Inr ?p, st @ [?p])"
    using assms by (rule createPost_valid)
  have i: "pid ?p = oid" by (simp add: new_Post_def)
  with assms(6) have "findById (st @ [?p]) (pid ?p) = Some ?p"
    by (intro findById_append_new) simp
  then have g: "getPost (st @ [?p]) (pid ?p) = Inr ?p" by (simp add: getPost_def)
  have "pid ?p = oid \<and> createdAt ?p = now \<and>
        content ?p = c \<and> postType ?p = t \<and> location ?p = trim l \<and> author ?p = actor \<and>
        likes ?p = [] \<and> dislikes ?p = [] \<and> replies ?p = []"
    by (simp add: new_Post_def)
  with c g show ?thesis by blast
qed

theorem create_then_get_witness:
  "''hello'' \<noteq> [] \<and> length ''hello'' \<le> 280 \<and> ''help'' \<in> set validPostTypes \<and>
   trim '' Paris '' \<noteq> [] \<and> NoFile \<noteq> UploadFails \<and> 1 \<notin> pid ` set ([] :: store) \<and>
   (\<exists>p st'. createPost [] 1 1000 5 (Some ''hello'') (Some ''help'') (Some '' Paris '') NoFile
              = (Inr p, st') \<and>
           getPost st' (pid p) = Inr p \<and>
           pid p = 1 \<and> createdAt p = 1000 \<and>
           content p = ''hello'' \<and> postType p = ''help'' \<and> location p = ''Paris'' \<and>
           author p = 5 \<and> likes p = [] \<and> dislikes p = [] \<and> replies p = [])"
proof -
  have 1: "''hello'' \<noteq> []" and 2: "length ''hello'' \<le> 280" by simp_all
  have 3: "''help'' \<in> set validPostTypes" by (simp add: validPostTypes_def)
  have 4: "trim '' Paris '' \<noteq> []" by (simp add: trim_def is_space_def)
  have 5: "NoFile \<noteq> UploadFails" by simp
  have 6: "1 \<notin> pid ` set ([] :: store)" by simp
  have 7: "trim '' Paris '' = ''Paris''" by (simp add: trim_def is_space_def)
  from create_then_get [OF 1 2 3 4 5 6, of 1000 5] 1 2 3 4 5 6 show ?thesis
    unfolding 7 by blast
qed

text \<open>
  A location with a leading blank is valid input, and the post read back has the
  location without it.
\<close>

theorem location_trimmed_counterexample:
  "createPost [] 1 1000 5 (Some ''hello'') (Some ''help'') (Some '' Paris'') NoFile =
     (Inr sample_post, [sample_post]) \<and>
   getPost [sample_post] (pid sample_post) = Inr sample_post \<and>
   location sample_post \<noteq> '' Paris''"
  by (simp add: createPost_def falsy_def str_def validPostTypes_def Let_def validate_def
        new_Post_def trim_def is_space_def sample_post_def getPost_def findById_def)




text \<open>
  C8. Every listing is in descending order of creation date, and the creation date is
  the only ordering key of the query: when the matching posts have pairwise different
  creation dates, there is one sequence only that the query can produce, so two runs of
  the list request over the same state return the same answer.
\<close>

theorem list_order:
  assumes "find_sort (matches rx q) st ys"
  shows "(\<forall>r. listPosts rx st q page limit ys = Inr r \<longrightarrow> sorted_desc (posts r)) \<and>
         (inj_on createdAt (set (filter (matches rx q) st)) \<longrightarrow>
            (\<forall>zs. find_sort (matches rx q) st zs \<longrightarrow>
               zs = ys \<and> listPosts rx st q page limit zs = listPosts rx st q page limit ys))"
proof (intro conjI allI impI)
  fix r
  assume "listPosts rx st q page limit ys = Inr r"
  then have r: "posts r = limit_docs limit (drop (nat ((page - 1) * limit)) ys)"
    by (auto simp: listPosts_def split: if_splits)
  from assms have "sorted_desc ys" by (simp add: find_sort_def)
  then show "sorted_desc (posts r)" unfolding r by (rule sorted_desc_page)
next
  fix zs
  assume inj: "inj_on createdAt (set (filter (matches rx q) st))"
    and zs: "find_sort (matches rx q) st zs"
  from find_sort_unique [OF zs assms inj] show "zs = ys" .
  then show "listPosts rx st q page limit zs = listPosts rx st q page limit ys" by simp
qed

theorem list_order_witness:
  "find_sort (matches any_rx no_filter) dated_store [newer_post, sample_post] \<and>
   inj_on createdAt (set (filter (matches any_rx no_filter) dated_store)) \<and>
   listPosts any_rx dated_store no_filter 1 20 [newer_post, sample_post] =
     Inr \<lparr>posts = [newer_post, sample_post], totalPages = Some 1, currentPage = 1,
          total = 2\<rparr> \<and>
   sorted_desc [newer_post, sample_post] \<and>
   \<not> find_sort (matches any_rx no_filter) dated_store [sample_post, newer_post]"
proof -
  have m: "matches any_rx no_filter = (\<lambda>p. True)"
    by (simp add: fun_eq_iff matches_def no_filter_def falsy_def)
  have cmp: "compiles any_rx no_filter"
    by (simp add: compiles_def no_filter_def falsy_def)
  have fs: "find_sort (matches any_rx no_filter) dated_store [newer_post, sample_post]"
    by (simp add: m find_sort_def sorted_desc_def dated_store_def newer_post_def
          sample_post_def)
  have i: "inj_on createdAt (set (filter (matches any_rx no_filter) dated_store))"
    by (simp add: m dated_store_def newer_post_def sample_post_def)
  have l: "listPosts any_rx dated_store no_filter 1 20 [newer_post, sample_post] =
     Inr \<lparr>posts = [newer_post, sample_post], totalPages = Some 1, currentPage = 1,
          total = 2\<rparr>"
    by (simp add: listPosts_def cmp m dated_store_def
          limit_docs_def total_pages_def
          ceiling_eq_iff)
  note t = list_order [OF fs, of 1 20]
  from t [THEN conjunct1, rule_format, OF l]
  have s: "sorted_desc [newer_post, sample_post]" by simp
  have u: "\<not> find_sort (matches any_rx no_filter) dated_store [sample_post, newer_post]"
  proof
    assume "find_sort (matches any_rx no_filter) dated_store [sample_post, newer_post]"
    with t [THEN conjunct2, rule_format, OF i]
    have "[sample_post, newer_post] = [newer_post, sample_post]" by blast
    then show False by (simp add: newer_post_def sample_post_def)
  qed
  show ?thesis by (intro conjI fs i l s u)
qed

text \<open>
  Two stored posts with the same creation date: the query can produce them in either
  order, and the list request answers with the order it is given, not with the order
  of the ids.
\<close>

theorem tie_order_counterexample:
  "createdAt tie_a = createdAt tie_b \<and> pid tie_a < pid tie_b \<and>
   find_sort (matches any_rx no_filter) tie_store [tie_a, tie_b] \<and>
   find_sort (matches any_rx no_filter) tie_store [tie_b, tie_a] \<and>
   listPosts any_rx tie_store no_filter 1 20 [tie_a, tie_b] =
     Inr \<lparr>posts = [tie_a, tie_b], totalPages = Some 1, currentPage = 1, total = 2\<rparr> \<and>
   listPosts any_rx tie_store no_filter 1 20 [tie_b, tie_a] =
     Inr \<lparr>posts = [tie_b, tie_a], totalPages = Some 1, currentPage = 1, total = 2\<rparr> \<and>
   [tie_a, tie_b] \<noteq> [tie_b, tie_a]"
proof -
  have m: "matches any_rx no_filter = (\<lambda>p. True)"
    by (simp add: fun_eq_iff matches_def no_filter_def falsy_def)
  have cmp: "compiles any_rx no_filter"
    by (simp add: compiles_def no_filter_def falsy_def)
  have d: "createdAt tie_a = createdAt tie_b \<and> pid tie_a < pid tie_b \<and>
           [tie_a, tie_b] \<noteq> [tie_b, tie_a]"
    by (simp add: tie_a_def tie_b_def sample_post_def)
  have f1: "find_sort (matches any_rx no_filter) tie_store [tie_a, tie_b]"
    by (simp add: m find_sort_def sorted_desc_def tie_store_def tie_a_def tie_b_def)
  have f2: "find_sort (matches any_rx no_filter) tie_store [tie_b, tie_a]"
    by (simp add: m find_sort_def sorted_desc_def tie_store_def tie_a_def tie_b_def)
  have l1: "listPosts any_rx tie_store no_filter 1 20 [tie_a, tie_b] =
     Inr \<lparr>posts = [tie_a, tie_b], totalPages = Some 1, currentPage = 1, total = 2\<rparr>"
    by (simp add: listPosts_def cmp m tie_store_def
          limit_docs_def total_pages_def ceiling_eq_iff)
  have l2: "listPosts any_rx tie_store no_filter 1 20 [tie_b, tie_a] =
     Inr \<lparr>posts = [tie_b, tie_a], totalPages = Some 1, currentPage = 1, total = 2\<rparr>"
    by (simp add: listPosts_def cmp m tie_store_def
          limit_docs_def total_pages_def ceiling_eq_iff)
  from d show ?thesis by (intro conjI f1 f2 l1 l2) simp_all
qed

end
